theory Spec2Isabelle
  imports Main "HOL-Library.AList"
begin

section \<open>JavaScript values\<close>

text \<open>
  The plugin contract is dynamically typed: a hook result is \<open>undefined\<close>, \<open>null\<close>,
  \<open>false\<close>, a string, or a structured object. Values are modelled by one datatype;
  numbers are the integral ones, objects are association lists from property name to
  value (plain data objects: no property of an object is callable).
\<close>

datatype jsval =
    JUndefined
  | JNull
  | JBool bool
  | JNum int
  | JStr string
  | JObj "(string \<times> jsval) list"

datatype error =
    TypeError string
  | Thrown jsval

fun typeof_js :: "jsval \<Rightarrow> string" where
  "typeof_js JUndefined = ''undefined''"
| "typeof_js JNull = ''object''"
| "typeof_js (JBool b) = ''boolean''"
| "typeof_js (JNum n) = ''number''"
| "typeof_js (JStr s) = ''string''"
| "typeof_js (JObj ps) = ''object''"

text \<open>Truthiness, as \<open>if (v)\<close> and \<open>!v\<close> read it.\<close>

fun truthy :: "jsval \<Rightarrow> bool" where
  "truthy JUndefined = False"
| "truthy JNull = False"
| "truthy (JBool b) = b"
| "truthy (JNum n) = (n \<noteq> 0)"
| "truthy (JStr s) = (s \<noteq> [])"
| "truthy (JObj ps) = True"

text \<open>
  Reading a property \<open>v.k\<close> of a value that is neither \<open>null\<close> nor \<open>undefined\<close>, for
  the data properties the lifecycle reads (\<open>code\<close>, \<open>map\<close>, \<open>meta\<close>, \<open>mappings\<close>,
  \<open>id\<close>, \<open>fileName\<close>, \<open>syntheticNamedExports\<close>): a primitive has none of them.
\<close>

fun getProp :: "jsval \<Rightarrow> string \<Rightarrow> jsval" where
  "getProp (JObj ps) k = (case map_of ps k of Some v \<Rightarrow> v | None \<Rightarrow> JUndefined)"
| "getProp v k = JUndefined"

fun natToString :: "nat \<Rightarrow> string" where
  "natToString n =
     (if n < 10 then [''0123456789'' ! n]
      else natToString (n div 10) @ [''0123456789'' ! (n mod 10)])"

declare natToString.simps [simp del]

definition intToString :: "int \<Rightarrow> string" where
  "intToString i = (if i < 0 then ''-'' @ natToString (nat (- i)) else natToString (nat i))"

text \<open>\<open>String(v)\<close>, which \<open>Array.prototype.join\<close> and property keys apply to a value.\<close>

fun ToString :: "jsval \<Rightarrow> string" where
  "ToString JUndefined = ''undefined''"
| "ToString JNull = ''null''"
| "ToString (JBool b) = (if b then ''true'' else ''false'')"
| "ToString (JNum n) = intToString n"
| "ToString (JStr s) = s"
| "ToString (JObj ps) = ''[object Object]''"

section \<open>Plugins and the hook dispatch engine\<close>

text \<open>
  \<open>plugin.execute[hook]\<close> is missing, a literal value, or a callable. A callable is
  applied to the argument list and acts on the world \<open>'s\<close> (everything a hook body can
  reach through its context); it returns a value or raises. A promise it returns is
  awaited at once by every caller, so its settled outcome is the outcome of the call:
  a rejection is \<open>Inl\<close>. The source's \<open>_callAsyncHook\<close> is \<open>priv_callAsyncHook\<close> here.
\<close>

type_synonym 's hookfn = "jsval list \<Rightarrow> 's \<Rightarrow> (error + jsval) \<times> 's"

datatype 's entry =
    Literal jsval
  | Callable "'s hookfn"

record 's plugin =
  execute :: "string \<Rightarrow> 's entry option"

definition priv_callAsyncHook :: "'s plugin \<Rightarrow> string \<Rightarrow> 's hookfn" where
  "priv_callAsyncHook plugin hook args s =
     (case execute plugin hook of
        None \<Rightarrow> (Inr JUndefined, s)
      | Some (Literal v) \<Rightarrow>
          if typeof_js v = ''string'' then (Inr v, s)
          else if truthy v then (Inl (TypeError ''plugin.execute[hook].apply is not a function''), s)
          else (Inr JUndefined, s)
      | Some (Callable f) \<Rightarrow> f args s)"

text \<open>
  The dispatchers read only \<open>container.__plugins\<close>, so they take the plugin list.
  The \<open>for\<close> loop over the indices is the recursion over the list. In the sequential
  dispatch \<open>toArgs\<close> is a projection of the accumulated value and \<open>fromResult\<close> may act on
  the world, as the merge functions of the lifecycle do.
\<close>

fun callAsyncFirstHook :: "'s plugin list \<Rightarrow> string \<Rightarrow> 's hookfn" where
  "callAsyncFirstHook [] hook args s = (Inr JUndefined, s)"
| "callAsyncFirstHook (p # ps) hook args s =
     (case priv_callAsyncHook p hook args s of
        (Inl e, s') \<Rightarrow> (Inl e, s')
      | (Inr hr, s') \<Rightarrow>
          if hr \<noteq> JNull \<and> hr \<noteq> JUndefined then (Inr hr, s')
          else callAsyncFirstHook ps hook args s')"

fun callAsyncSequentialHook ::
  "'s plugin list \<Rightarrow> string \<Rightarrow> ('a \<Rightarrow> jsval list) \<Rightarrow> (jsval \<Rightarrow> 'a \<Rightarrow> 's \<Rightarrow> 'a \<times> 's) \<Rightarrow>
     'a \<Rightarrow> 's \<Rightarrow> (error + 'a) \<times> 's" where
  "callAsyncSequentialHook [] hook toArgs fromResult output s = (Inr output, s)"
| "callAsyncSequentialHook (p # ps) hook toArgs fromResult output s =
     (case priv_callAsyncHook p hook (toArgs output) s of
        (Inl e, s') \<Rightarrow> (Inl e, s')
      | (Inr hr, s') \<Rightarrow>
          if hr \<noteq> JNull \<and> hr \<noteq> JUndefined then
            (case fromResult hr output s' of
               (output', s'') \<Rightarrow> callAsyncSequentialHook ps hook toArgs fromResult output' s'')
          else callAsyncSequentialHook ps hook toArgs fromResult output s')"

text \<open>
  Parallel dispatch starts every hook before any result is awaited, so every hook is
  invoked even when an earlier one fails; the hook bodies run in plugin order.
  \<open>Promise.all\<close> then gives the results in plugin order, or a failure (the first
  one in plugin order is taken).
\<close>

fun callAsyncParallelHook ::
  "'s plugin list \<Rightarrow> string \<Rightarrow> jsval list \<Rightarrow> 's \<Rightarrow> (error + jsval list) \<times> 's" where
  "callAsyncParallelHook [] hook args s = (Inr [], s)"
| "callAsyncParallelHook (p # ps) hook args s =
     (case priv_callAsyncHook p hook args s of
        (r, s') \<Rightarrow>
          (case callAsyncParallelHook ps hook args s' of
             (rs, s'') \<Rightarrow>
               (case r of
                  Inl e \<Rightarrow> (Inl e, s'')
                | Inr hr \<Rightarrow>
                    (case rs of
                       Inl e \<Rightarrow> (Inl e, s'')
                     | Inr hrs \<Rightarrow> (Inr (hr # hrs), s'')))))"

text \<open>
  The plugins of a prefix all declined: each hook of \<open>ps\<close>, run in registration order on
  the world left by the one before, returned \<open>null\<close> or \<open>undefined\<close>; the result is the
  world they leave.
\<close>

fun declined :: "'s plugin list \<Rightarrow> string \<Rightarrow> jsval list \<Rightarrow> 's \<Rightarrow> 's option" where
  "declined [] hook args s = Some s"
| "declined (p # ps) hook args s =
     (case priv_callAsyncHook p hook args s of
        (Inl e, s') \<Rightarrow> None
      | (Inr hr, s') \<Rightarrow>
          if hr = JNull \<or> hr = JUndefined then declined ps hook args s' else None)"

text \<open>Test plugins: a hook that records its name in a log and returns a fixed value.\<close>

definition logging :: "string \<Rightarrow> string \<Rightarrow> jsval \<Rightarrow> (string list) plugin" where
  "logging hook name v =
     \<lparr> execute = [hook \<mapsto> Callable (\<lambda>args log. (Inr v, log @ [name]))] \<rparr>"

definition returning :: "string \<Rightarrow> jsval \<Rightarrow> 's plugin" where
  "returning hook v = \<lparr> execute = [hook \<mapsto> Callable (\<lambda>args s. (Inr v, s))] \<rparr>"

section \<open>The container and its per-module metadata\<close>

text \<open>
  The mutable part of the container: \<open>__meta\<close> (module id to metadata object, an object
  being a finite map from property name to value), the three transient fields of a
  \<open>transform\<close> call, and \<open>outside\<close>, whatever else hook bodies can reach. Hooks act on
  the whole of it. The immutable part is the plugin list and the configuration.
\<close>

record 'u world =
  container_meta :: "string \<Rightarrow> (string \<Rightarrow> jsval option) option"
  currentMapChain :: "jsval list option"
  currentOriginalCode :: "string option"
  currentModuleId :: "string option"
  outside :: 'u

datatype external_option =
    ExternalArray "jsval list"
  | ExternalFunction "string \<Rightarrow> jsval"
  | ExternalOther jsval

record config =
  external :: external_option

record 'u container =
  container_plugins :: "'u world plugin list"
  container_config :: "config option"

text \<open>
  \<open>for (prop in meta)\<close> with \<open>meta[prop]\<close>: the own properties of an object, the
  indices of a string, nothing for another primitive.
\<close>

fun forInEntries :: "jsval \<Rightarrow> (string \<times> jsval) list" where
  "forInEntries (JObj ps) = map (\<lambda>k. (k, getProp (JObj ps) k)) (remdups (map fst ps))"
| "forInEntries (JStr s) = map (\<lambda>i. (natToString i, JStr [s ! i])) [0..<length s]"
| "forInEntries v = []"

definition handleMetaProperty :: "string \<Rightarrow> jsval \<Rightarrow> 'u world \<Rightarrow> 'u world" where
  "handleMetaProperty filePath meta s =
     (if truthy meta then
        (let fileMeta = (case container_meta s filePath of Some fm \<Rightarrow> fm | None \<Rightarrow> Map.empty)
         in s\<lparr>container_meta := (container_meta s)
               (filePath \<mapsto> fold (\<lambda>(prop, v) fm. fm(prop \<mapsto> v)) (forInEntries meta) fileMeta)\<rparr>)
      else s)"

definition isExternal :: "config option \<Rightarrow> string \<Rightarrow> jsval" where
  "isExternal cfg name =
     (case cfg of
        None \<Rightarrow> JBool False
      | Some c \<Rightarrow>
          (case external c of
             ExternalArray xs \<Rightarrow> JBool (JStr name \<in> set xs)
           | ExternalFunction f \<Rightarrow> f name
           | ExternalOther v \<Rightarrow> JBool False))"

text \<open>
  The collaborators outside the repository's two files: Node's \<open>path\<close> and \<open>fs\<close>,
  \<open>process.cwd()\<close> (inside \<open>path_resolve_cwd\<close>) and \<open>resolvePath\<close> of \<open>./utils\<close>.
\<close>

record env =
  path_isAbsolute :: "string \<Rightarrow> bool"
  path_normalize :: "string \<Rightarrow> string"
  path_resolve_cwd :: "string \<Rightarrow> string"
  resolvePath :: "string \<Rightarrow> string \<Rightarrow> error + string"
  fs_readFileSync :: "string \<Rightarrow> error + string"

definition optStr :: "string option \<Rightarrow> jsval" where
  "optStr x = (case x of None \<Rightarrow> JUndefined | Some p \<Rightarrow> JStr p)"

section \<open>The lifecycle facade\<close>

text \<open>
  The parameter \<open>id\<close> of the source is \<open>ident\<close> here. An object literal the source
  returns is the object with its properties in the order written.
\<close>

definition resolveId ::
  "env \<Rightarrow> 'u container \<Rightarrow> string \<Rightarrow> string option \<Rightarrow> 'u world \<Rightarrow> (error + jsval) \<times> 'u world" where
  "resolveId env container ident parentFilePath s =
     (case callAsyncFirstHook (container_plugins container) ''resolveId''
             [JStr ident, optStr parentFilePath] s of
        (Inl e, s') \<Rightarrow> (Inl e, s')
      | (Inr hr, s') \<Rightarrow>
          if hr = JBool False \<or> truthy (isExternal (container_config container) ident) then
            (Inr (JObj [(''id'', JStr ident), (''external'', JBool True)]), s')
          else
            (let hr1 = (case hr of
                          JStr h \<Rightarrow>
                            JObj [(''id'', JStr (if path_isAbsolute env h then path_normalize env h else h)),
                                  (''external'', JBool False)]
                        | _ \<Rightarrow> hr);
                 parent = (case parentFilePath of
                             None \<Rightarrow> path_resolve_cwd env ''__entry''
                           | Some p \<Rightarrow> if p \<noteq> [] then p else path_resolve_cwd env ''__entry'')
             in if \<not> truthy hr1 then
                  (case resolvePath env ident parent of
                     Inl e \<Rightarrow> (Inl e, s')
                   | Inr r \<Rightarrow>
                       (let hr2 = JObj [(''id'', JStr (path_normalize env r)), (''external'', JBool False)]
                        in (Inr hr2,
                            handleMetaProperty (ToString (getProp hr2 ''id'')) (getProp hr2 ''meta'') s')))
                else
                  (Inr hr1,
                   handleMetaProperty (ToString (getProp hr1 ''id'')) (getProp hr1 ''meta'') s')))"

definition load ::
  "env \<Rightarrow> 'u container \<Rightarrow> string \<Rightarrow> string option \<Rightarrow> 'u world \<Rightarrow> (error + jsval) \<times> 'u world" where
  "load env container filePath parentFilePath s =
     (case callAsyncFirstHook (container_plugins container) ''load''
             [JStr filePath, optStr parentFilePath] s of
        (Inl e, s') \<Rightarrow> (Inl e, s')
      | (Inr hr, s') \<Rightarrow>
          if typeof_js hr = ''string'' then (Inr (JObj [(''code'', hr)]), s')
          else if hr = JNull then (Inl (TypeError ''Cannot read properties of null''), s')
          else if typeof_js hr = ''object'' \<and> truthy (getProp hr ''code'') then
            (Inr hr, handleMetaProperty filePath (getProp hr ''meta'') s')
          else if \<not> truthy hr \<or> \<not> truthy (getProp hr ''code'') then
            (let filePath' = (if path_isAbsolute env filePath then filePath
                              else path_resolve_cwd env filePath)
             in case fs_readFileSync env filePath' of
                  Inl e \<Rightarrow> (Inl e, s')
                | Inr text \<Rightarrow> (Inr (JObj [(''code'', JStr text)]), s'))
          else (Inr JUndefined, s'))"

fun deleteProp :: "jsval \<Rightarrow> string \<Rightarrow> jsval" where
  "deleteProp (JObj ps) k = JObj (AList.delete k ps)"
| "deleteProp v k = v"

text \<open>
  The merge function of \<open>transform\<close>. It closes over \<open>mapChain\<close> and
  \<open>syntheticNamedExports\<close>, locals of the \<open>transform\<close> call that no hook can reach: they
  travel with the accumulated value. \<open>container.__currentMapChain\<close> is the same array as
  \<open>mapChain\<close>, so a push shows there too.
\<close>

definition transform_fromResult ::
  "string \<Rightarrow> jsval \<Rightarrow> jsval \<times> jsval list \<times> jsval \<Rightarrow> 'u world \<Rightarrow>
     (jsval \<times> jsval list \<times> jsval) \<times> 'u world" where
  "transform_fromResult ident result0 acc s =
     (case acc of
        (input, mapChain, syntheticNamedExports) \<Rightarrow>
          (let result1 = (if typeof_js result0 = ''string'' then JObj [(''code'', result0)]
                          else result0);
               result = (if getProp result1 ''map'' \<noteq> JNull
                            \<and> typeof_js (getProp result1 ''map'') = ''object''
                            \<and> \<not> truthy (getProp (getProp result1 ''map'') ''mappings'')
                         then deleteProp result1 ''map'' else result1);
               s1 = handleMetaProperty ident (getProp result ''meta'') s;
               sne = (if truthy (getProp result ''syntheticNamedExports'')
                         \<and> syntheticNamedExports = JUndefined
                      then getProp result ''syntheticNamedExports''
                      else syntheticNamedExports)
           in if getProp result ''code'' \<noteq> JUndefined then
                (let mapChain' = mapChain @
                       [JObj [(''code'', getProp result ''code''), (''map'', getProp result ''map'')]]
                 in ((JObj [(''code'', getProp result ''code''), (''id'', JStr ident),
                            (''map'', getProp result ''map'')],
                      mapChain', sne),
                     s1\<lparr>currentMapChain := Some mapChain'\<rparr>))
              else ((input, mapChain, sne), s1)))"

text \<open>
  \<open>combineSourceMapChainFast\<close> belongs to \<open>./PluginUtils\<close>, outside the two files: it
  is the parameter \<open>combine\<close>, given the chain, the original code and the module id.
\<close>

definition transform ::
  "(jsval list \<Rightarrow> string \<Rightarrow> string \<Rightarrow> error + jsval) \<Rightarrow> 'u container \<Rightarrow> string \<Rightarrow> string \<Rightarrow>
     'u world \<Rightarrow> (error + jsval) \<times> 'u world" where
  "transform combine container code ident s =
     (let originalCode = code;
          s0 = s\<lparr>currentMapChain := Some [], currentOriginalCode := Some originalCode,
                 currentModuleId := Some ident\<rparr>
      in case callAsyncSequentialHook (container_plugins container) ''transform''
                (\<lambda>(input, mapChain, sne). [getProp input ''code'', getProp input ''id''])
                (transform_fromResult ident)
                (JObj [(''code'', JStr code), (''id'', JStr ident), (''map'', JNull),
                       (''syntheticNamedExports'', JBool False)], [], JUndefined) s0 of
           (Inl e, s1) \<Rightarrow> (Inl e, s1)
         | (Inr (hr, mapChain, sne), s1) \<Rightarrow>
             (case combine mapChain originalCode ident of
                Inl e \<Rightarrow> (Inl e, s1)
              | Inr m \<Rightarrow>
                  (Inr (JObj [(''code'', getProp hr ''code''), (''map'', m),
                              (''syntheticNamedExports'', sne)]),
                   s1\<lparr>currentMapChain := None, currentOriginalCode := None,
                      currentModuleId := None\<rparr>)))"

text \<open>\<open>Array.prototype.join\<close>: \<open>undefined\<close> and \<open>null\<close> elements give the empty string.\<close>

fun joinStrings :: "string list \<Rightarrow> string \<Rightarrow> string" where
  "joinStrings [] sep = []"
| "joinStrings [x] sep = x"
| "joinStrings (x # y # ys) sep = x @ sep @ joinStrings (y # ys) sep"

definition join_js :: "jsval list \<Rightarrow> string \<Rightarrow> string" where
  "join_js results sep =
     joinStrings (map (\<lambda>v. if v = JUndefined \<or> v = JNull then [] else ToString v) results) sep"

definition banner :: "'u container \<Rightarrow> 'u world \<Rightarrow> (error + string) \<times> 'u world" where
  "banner container s =
     (case callAsyncParallelHook (container_plugins container) ''banner'' [] s of
        (Inl e, s') \<Rightarrow> (Inl e, s')
      | (Inr results, s') \<Rightarrow> (Inr (join_js results [CHR 0x0A]), s'))"

definition footer :: "'u container \<Rightarrow> 'u world \<Rightarrow> (error + string) \<times> 'u world" where
  "footer container s =
     (case callAsyncParallelHook (container_plugins container) ''footer'' [] s of
        (Inl e, s') \<Rightarrow> (Inl e, s')
      | (Inr results, s') \<Rightarrow> (Inr (join_js results [CHR 0x0A]), s'))"

definition intro :: "'u container \<Rightarrow> 'u world \<Rightarrow> (error + string) \<times> 'u world" where
  "intro container s =
     (case callAsyncParallelHook (container_plugins container) ''intro'' [] s of
        (Inl e, s') \<Rightarrow> (Inl e, s')
      | (Inr results, s') \<Rightarrow> (Inr (join_js results [CHR 0x0A]), s'))"

definition outro :: "'u container \<Rightarrow> 'u world \<Rightarrow> (error + string) \<times> 'u world" where
  "outro container s =
     (case callAsyncParallelHook (container_plugins container) ''outro'' [] s of
        (Inl e, s') \<Rightarrow> (Inl e, s')
      | (Inr results, s') \<Rightarrow> (Inr (join_js results [CHR 0x0A]), s'))"

section \<open>The bundle view of generateBundle\<close>

text \<open>
  The handlers of the proxy over the array \<open>bundle\<close>. \<open>get\<close> is
  \<open>bundle.find(e => e.fileName === prop)\<close>, which raises on a \<open>null\<close> or \<open>undefined\<close>
  element it reaches; \<open>set\<close> is \<open>bundle.push(value)\<close> and answers \<open>true\<close>.
\<close>

fun bundleObj_get :: "jsval list \<Rightarrow> string \<Rightarrow> error + jsval" where
  "bundleObj_get [] prop = Inr JUndefined"
| "bundleObj_get (e # es) prop =
     (if e = JNull \<or> e = JUndefined then Inl (TypeError ''Cannot read properties of null or undefined'')
      else if getProp e ''fileName'' = JStr prop then Inr e
      else bundleObj_get es prop)"

definition bundleObj_set :: "jsval list \<Rightarrow> string \<Rightarrow> jsval \<Rightarrow> jsval list \<times> bool" where
  "bundleObj_set bundle prop v = (bundle @ [v], True)"

fun bundleObj_ownKeys :: "jsval list \<Rightarrow> error + jsval list" where
  "bundleObj_ownKeys [] = Inr []"
| "bundleObj_ownKeys (e # es) =
     (if e = JNull \<or> e = JUndefined then Inl (TypeError ''Cannot read properties of null or undefined'')
      else (case bundleObj_ownKeys es of
              Inl err \<Rightarrow> Inl err
            | Inr ks \<Rightarrow> Inr (getProp e ''fileName'' # ks)))"


section \<open>The syntax transform (es2cjs)\<close>

text \<open>
  The parser (acorn) and the edit buffer (MagicString) are libraries outside the
  repository. The parser is a parameter: it returns the top-level statement list, or an
  error carrying \<open>name\<close>, \<open>message\<close> and \<open>loc\<close> (\<open>line\<close> counted from 1, \<open>column\<close> from 0,
  as acorn reports them). The nodes carry the fields the transform reads.
\<close>

datatype specifier =
    ImportDefaultSpecifier string
  | ImportSpecifier string string
  | ImportNamespaceSpecifier string
  | ExportSpecifier string string

text \<open>
  \<open>ImportSpecifier local imported\<close> and \<open>ExportSpecifier local exported\<close> hold the two
  names in this order. A declaration holds its span, \<open>id.name\<close> when it has an \<open>id\<close>, and
  for a variable declaration the \<open>id.name\<close> of each declarator (\<open>None\<close> for a pattern,
  which has no \<open>name\<close>).
\<close>

record decl_node =
  decl_start :: nat
  decl_end :: nat
  decl_id :: "string option"
  decl_declarations :: "string option list option"

datatype node =
    ImportDeclaration nat nat "specifier list" string
  | ExportDefaultDeclaration nat nat decl_node
  | ExportNamedDeclaration nat nat "decl_node option" "specifier list" "string option"
  | ExportAllDeclaration nat nat string
  | OtherStatement nat nat

record parse_error =
  pe_name :: string
  pe_message :: string
  loc_line :: nat
  loc_column :: nat

record 'b edit_buffer =
  ms_new :: "string \<Rightarrow> 'b"
  ms_overwrite :: "nat \<Rightarrow> nat \<Rightarrow> string \<Rightarrow> 'b \<Rightarrow> 'b"
  ms_appendRight :: "nat \<Rightarrow> string \<Rightarrow> 'b \<Rightarrow> 'b"
  ms_toString :: "'b \<Rightarrow> string"

record es_options =
  opt_external :: external_option
  opt_globals :: "(string \<Rightarrow> string option) option"

record 'b response =
  output_buf :: 'b
  dependencies :: "string list"

definition es_isExternal :: "es_options option \<Rightarrow> string \<Rightarrow> jsval" where
  "es_isExternal context name =
     (case context of
        None \<Rightarrow> JBool False
      | Some opts \<Rightarrow>
          (case opt_external opts of
             ExternalArray xs \<Rightarrow> JBool (JStr name \<in> set xs)
           | ExternalFunction f \<Rightarrow> f name
           | ExternalOther v \<Rightarrow> JBool False))"

text \<open>
  \<open>resolveExternalImport\<close>, \<open>resolveInternalImport\<close> and \<open>resolveImport\<close> read of their
  node whether it is an \<open>ExportAllDeclaration\<close>, its \<open>specifiers\<close> (missing on an
  export-all) and \<open>source.value\<close>; they are given these three.
\<close>

fun externalBinding :: "string \<Rightarrow> specifier \<Rightarrow> string" where
  "externalBinding importAlias (ImportDefaultSpecifier local) =
     ''var '' @ local @ '' = '' @ importAlias @ '' && '' @ importAlias @ ''.hasOwnProperty(''
       @ [CHR 0x22] @ ''default'' @ [CHR 0x22] @ '')? '' @ importAlias @ ''.default : ''
       @ importAlias @ '';''"
| "externalBinding importAlias (ImportSpecifier local imported) =
     ''var '' @ local @ '' = '' @ importAlias @ ''.'' @ imported @ '';''"
| "externalBinding importAlias (ImportNamespaceSpecifier local) =
     ''var '' @ local @ '' = '' @ importAlias"
| "externalBinding importAlias (ExportSpecifier local exported) = []"

definition resolveExternalImport ::
  "es_options option \<Rightarrow> bool \<Rightarrow> specifier list option \<Rightarrow> string \<Rightarrow> string \<times> string" where
  "resolveExternalImport context exportAll specs src =
     (let nonEmpty = (case specs of None \<Rightarrow> False | Some sp \<Rightarrow> sp \<noteq> []);
          globalConf = (case context of
                          None \<Rightarrow> Map.empty
                        | Some opts \<Rightarrow> (case opt_globals opts of None \<Rightarrow> Map.empty | Some g \<Rightarrow> g));
          defaultNode = (case specs of
                           None \<Rightarrow> None
                         | Some sp \<Rightarrow>
                             (case filter (\<lambda>n. case n of ImportDefaultSpecifier l \<Rightarrow> True | _ \<Rightarrow> False) sp of
                                [] \<Rightarrow> None
                              | ImportDefaultSpecifier l # rest \<Rightarrow> Some l
                              | _ # rest \<Rightarrow> None));
          globalName = (case globalConf src of
                          Some g \<Rightarrow> if g \<noteq> [] then g
                                    else (case defaultNode of
                                            Some l \<Rightarrow> if l \<noteq> [] then l else src
                                          | None \<Rightarrow> src)
                        | None \<Rightarrow> (case defaultNode of
                                     Some l \<Rightarrow> if l \<noteq> [] then l else src
                                   | None \<Rightarrow> src));
          importAlias = (if nonEmpty \<or> exportAll then ''_e'' @ globalName else []);
          transpiled = (if nonEmpty \<or> exportAll
                        then ''var '' @ importAlias @ '' = window.'' @ globalName @ '';''
                        else [])
      in (if nonEmpty
          then transpiled @ concat (map (externalBinding importAlias) (case specs of Some sp \<Rightarrow> sp | None \<Rightarrow> []))
          else transpiled,
          importAlias))"

fun internalBinding :: "string \<Rightarrow> specifier \<Rightarrow> string" where
  "internalBinding importAlias (ImportDefaultSpecifier local) =
     ''var '' @ local @ '' = '' @ importAlias @ ''.default;''"
| "internalBinding importAlias (ImportSpecifier local imported) =
     ''var '' @ local @ '' = '' @ importAlias @ ''.'' @ imported @ '';''"
| "internalBinding importAlias (ImportNamespaceSpecifier local) =
     ''var '' @ local @ '' = '' @ importAlias @ '';''"
| "internalBinding importAlias (ExportSpecifier local exported) = []"

definition resolveInternalImport ::
  "'b response \<Rightarrow> specifier list option \<Rightarrow> string \<Rightarrow> (string \<times> string) \<times> 'b response" where
  "resolveInternalImport response specs src =
     (let importIndex = length (dependencies response);
          importAlias = ''_i'' @ natToString importIndex;
          transpiled = ''var '' @ importAlias @ '' = require(__nollup__'' @ natToString importIndex @ '');'';
          response' = response\<lparr>dependencies := dependencies response @ [src]\<rparr>
      in ((case specs of
             None \<Rightarrow> transpiled
           | Some sp \<Rightarrow> transpiled @ concat (map (internalBinding importAlias) sp),
           importAlias),
          response'))"

definition resolveImport ::
  "es_options option \<Rightarrow> 'b response \<Rightarrow> bool \<Rightarrow> specifier list option \<Rightarrow> string \<Rightarrow>
     (string \<times> string) \<times> 'b response" where
  "resolveImport context response exportAll specs src =
     (if truthy (es_isExternal context src)
      then (resolveExternalImport context exportAll specs src, response)
      else resolveInternalImport response specs src)"

fun exportBinding :: "string option \<Rightarrow> specifier \<Rightarrow> string" where
  "exportBinding importAlias (ExportSpecifier local exported) =
     (case importAlias of
        Some a \<Rightarrow> ''module.exports.'' @ exported @ '' = '' @ a @ ''.'' @ local @ '';''
      | None \<Rightarrow> ''module.exports.'' @ exported @ '' = '' @ local @ '';'')"
| "exportBinding importAlias other = []"

definition declaratorName :: "string option \<Rightarrow> string" where
  "declaratorName n = (case n of Some name \<Rightarrow> name | None \<Rightarrow> ''undefined'')"

text \<open>The body of the loop over \<open>ast.body\<close>, for one node.\<close>

fun es2cjs_node ::
  "'b edit_buffer \<Rightarrow> es_options option \<Rightarrow> node \<Rightarrow> 'b response \<Rightarrow> 'b response" where
  "es2cjs_node ms context (ImportDeclaration start end specs src) response =
     (case resolveImport context response False (Some specs) src of
        ((transpiled, importAlias), response') \<Rightarrow>
          response'\<lparr>output_buf := ms_overwrite ms start end transpiled (output_buf response')\<rparr>)"
| "es2cjs_node ms context (ExportDefaultDeclaration start end d) response =
     (case decl_id d of
        Some name \<Rightarrow>
          response\<lparr>output_buf :=
            ms_appendRight ms (decl_end d) (''; module.exports.default = '' @ name @ '';'')
              (ms_overwrite ms start (decl_start d) [] (output_buf response))\<rparr>
      | None \<Rightarrow>
          response\<lparr>output_buf :=
            ms_overwrite ms start (decl_start d) ''module.exports.default = '' (output_buf response)\<rparr>)"
| "es2cjs_node ms context (ExportNamedDeclaration start end (Some d) specs src) response =
     (case decl_id d of
        Some name \<Rightarrow>
          response\<lparr>output_buf :=
            ms_appendRight ms (decl_end d) (''; module.exports.'' @ name @ '' = '' @ name @ '';'')
              (ms_overwrite ms start (decl_start d) [] (output_buf response))\<rparr>
      | None \<Rightarrow>
          (case decl_declarations d of
             Some ds \<Rightarrow>
               response\<lparr>output_buf :=
                 ms_appendRight ms (decl_end d)
                   (''; '' @ joinStrings
                       (map (\<lambda>n. ''module.exports.'' @ declaratorName n @ '' = '' @ declaratorName n) ds)
                       '', '' @ '';'')
                   (ms_overwrite ms start (decl_start d) [] (output_buf response))\<rparr>
           | None \<Rightarrow> response))"
| "es2cjs_node ms context (ExportNamedDeclaration start end None specs src) response =
     (case (case src of
              Some sv \<Rightarrow>
                (case resolveImport context response False (Some specs) sv of
                   ((transpiled, importAlias), response') \<Rightarrow> (Some importAlias, transpiled, response'))
            | None \<Rightarrow> (None, [], response)) of
        (importAlias, transpiled, response') \<Rightarrow>
          response'\<lparr>output_buf :=
            ms_overwrite ms start end (transpiled @ concat (map (exportBinding importAlias) specs))
              (output_buf response')\<rparr>)"
| "es2cjs_node ms context (ExportAllDeclaration start end src) response =
     (case resolveImport context response True None src of
        ((transpiled, importAlias), response') \<Rightarrow>
          response'\<lparr>output_buf :=
            ms_overwrite ms start end
              (transpiled @ ''for(var k in '' @ importAlias @ ''){k !== '' @ [CHR 0x22] @ ''default''
                 @ [CHR 0x22] @ '' && (module.exports[k] = '' @ importAlias @ ''[k])}'')
              (output_buf response')\<rparr>)"
| "es2cjs_node ms context (OtherStatement start end) response = response"

fun splitOn :: "char \<Rightarrow> string \<Rightarrow> string list" where
  "splitOn c [] = [[]]"
| "splitOn c (x # xs) =
     (if x = c then [] # splitOn c xs
      else (case splitOn c xs of
              [] \<Rightarrow> [[x]]
            | l # ls \<Rightarrow> (x # l) # ls))"

definition padStart :: "string \<Rightarrow> nat \<Rightarrow> string" where
  "padStart str targetLength = replicate (targetLength - length str) (CHR '' '') @ str"

text \<open>
  \<open>input.split('\n')[e.loc.line - 1]\<close> is \<open>undefined\<close> outside the array, which the
  concatenation prints as the word.
\<close>

definition errorLine :: "string \<Rightarrow> nat \<Rightarrow> string" where
  "errorLine input line =
     (if 1 \<le> line \<and> line - 1 < length (splitOn (CHR 0x0A) input)
      then splitOn (CHR 0x0A) input ! (line - 1) else ''undefined'')"

definition es2cjs ::
  "(string \<Rightarrow> parse_error + node list) \<Rightarrow> 'b edit_buffer \<Rightarrow> string \<Rightarrow> es_options option \<Rightarrow>
     error + string \<times> string list" where
  "es2cjs parse ms input context =
     (let response = \<lparr> output_buf = ms_new ms input, dependencies = [] \<rparr>
      in case parse input of
           Inl e \<Rightarrow>
             Inl (Thrown (JStr (joinStrings
               [pe_name e @ '': '' @ pe_message e,
                ''    '' @ errorLine input (loc_line e),
                ''    '' @ padStart ''^'' (loc_column e)] [CHR 0x0A])))
         | Inr body \<Rightarrow>
             (let response' = fold (es2cjs_node ms context) body response
              in Inr (ms_toString ms (output_buf response'), dependencies response')))"


text \<open>
  Modelled from the spec: the external edit buffer (MagicString), as section 6 gives its
  contract: \<open>overwrite(start, end, text)\<close> replaces a span of the original text,
  \<open>appendRight(pos, text)\<close> inserts at a position of it, \<open>toString()\<close> is the edited text
  with every untouched region kept verbatim. The buffer is the original text and the
  edits in the order they were issued.
\<close>

datatype edit = Overwrite nat nat string | AppendRight nat string

fun appendsAt :: "edit list \<Rightarrow> nat \<Rightarrow> string" where
  "appendsAt [] i = []"
| "appendsAt (AppendRight pos text # es) i = (if pos = i then text else []) @ appendsAt es i"
| "appendsAt (Overwrite a b text # es) i = appendsAt es i"

fun overwriteAt :: "edit list \<Rightarrow> nat \<Rightarrow> (nat \<times> string) option" where
  "overwriteAt [] i = None"
| "overwriteAt (Overwrite a b text # es) i =
     (if a = i \<and> a < b then Some (b, text) else overwriteAt es i)"
| "overwriteAt (AppendRight pos text # es) i = overwriteAt es i"

fun render :: "edit list \<Rightarrow> nat \<Rightarrow> nat \<Rightarrow> string \<Rightarrow> string" where
  "render es i skip [] = appendsAt es i"
| "render es i skip (c # cs) =
     (if i < skip then render es (Suc i) skip cs
      else appendsAt es i @
        (case overwriteAt es i of
           Some (b, text) \<Rightarrow> text @ render es (Suc i) b cs
         | None \<Rightarrow> c # render es (Suc i) skip cs))"

definition editList :: "(string \<times> edit list) edit_buffer" where
  "editList = \<lparr> ms_new = (\<lambda>input. (input, [])),
     ms_overwrite = (\<lambda>a b text (input, es). (input, es @ [Overwrite a b text])),
     ms_appendRight = (\<lambda>pos text (input, es). (input, es @ [AppendRight pos text])),
     ms_toString = (\<lambda>(input, es). render es 0 0 input) \<rparr>"

section \<open>Test fixtures\<close>

definition emptyWorld :: "unit world" where
  "emptyWorld = \<lparr> container_meta = (\<lambda>k. None), currentMapChain = None,
     currentOriginalCode = None, currentModuleId = None, outside = () \<rparr>"

definition abPlugins :: "string \<Rightarrow> unit container" where
  "abPlugins hook = \<lparr> container_plugins =
       [returning hook (JStr ''a''), returning hook JUndefined, returning hook (JStr ''b'')],
     container_config = None \<rparr>"

definition testEnv :: env where
  "testEnv = \<lparr> path_isAbsolute = (\<lambda>p. take 1 p = ''/''), path_normalize = (\<lambda>p. p),
     path_resolve_cwd = (\<lambda>p. ''/cwd/'' @ p), resolvePath = (\<lambda>i p. Inr (p @ ''/'' @ i)),
     fs_readFileSync = (\<lambda>p. Inr ''DISK'') \<rparr>"

definition emptyCodePlugin :: "unit container" where
  "emptyCodePlugin = \<lparr> container_plugins =
       [returning ''load'' (JObj [(''code'', JStr []), (''meta'', JObj [(''x'', JNum 1)])])],
     container_config = None \<rparr>"

definition emptyStringPlugin :: "unit container" where
  "emptyStringPlugin = \<lparr> container_plugins = [returning ''load'' (JStr [])],
     container_config = None \<rparr>"

definition codePlugin :: "unit container" where
  "codePlugin = \<lparr> container_plugins =
       [returning ''load'' (JObj [(''code'', JStr ''let a''), (''meta'', JObj [(''x'', JNum 1)])])],
     container_config = None \<rparr>"

definition jqueryExternal :: "unit container" where
  "jqueryExternal = \<lparr> container_plugins = [returning ''resolveId'' (JStr ''/node_modules/jquery.js'')],
     container_config = Some \<lparr> external = ExternalArray [JStr ''jquery''] \<rparr> \<rparr>"

definition excludingPlugin :: "unit container" where
  "excludingPlugin = \<lparr> container_plugins = [returning ''resolveId'' (JBool False)],
     container_config = None \<rparr>"

definition twoTransforms :: "unit container" where
  "twoTransforms = \<lparr> container_plugins =
       [returning ''transform''
          (JObj [(''code'', JStr ''c1''), (''map'', JObj [(''mappings'', JStr ''AAAA'')])]),
        returning ''transform''
          (JObj [(''code'', JStr ''c2''), (''map'', JObj [(''mappings'', JStr ''CCCC'')]),
                 (''meta'', JObj [(''x'', JNum 1)])])],
     container_config = None \<rparr>"

definition recordingCombine :: "jsval list \<Rightarrow> string \<Rightarrow> string \<Rightarrow> error + jsval" where
  "recordingCombine chain originalCode ident =
     Inr (JObj [(''count'', JNum (int (length chain))), (''oldest'', hd chain),
                (''newest'', last chain), (''original'', JStr originalCode),
                (''file'', JStr ident)])"

definition oneRecord :: "jsval list" where
  "oneRecord = [JObj [(''fileName'', JStr ''a.js''), (''code'', JStr ''old'')]]"



definition parseUnexpected :: "string \<Rightarrow> parse_error + node list" where
  "parseUnexpected input = Inl \<lparr> pe_name = ''SyntaxError'', pe_message = ''Unexpected token (1:4)'',
     loc_line = 1, loc_column = 4 \<rparr>"

section \<open>Async-first dispatch\<close>

lemma callAsyncFirstHook_declined:
  "declined ps hook args s = Some s1 \<Longrightarrow> callAsyncFirstHook ps hook args s = (Inr JUndefined, s1)"
  by (induction ps arbitrary: s) (auto split: prod.splits sum.splits if_splits)

lemma callAsyncFirstHook_append:
  "declined ps hook args s = Some s1 \<Longrightarrow>
     callAsyncFirstHook (ps @ qs) hook args s = callAsyncFirstHook qs hook args s1"
  by (induction ps arbitrary: s) (auto split: prod.splits sum.splits if_splits)

lemma callAsyncFirstHook_never_null:
  "callAsyncFirstHook ps hook args s = (Inr v, s') \<Longrightarrow> v \<noteq> JNull"
  by (induction ps arbitrary: s) (auto split: prod.splits sum.splits if_splits)

lemma callAsyncFirstHook_opinion_source:
  "callAsyncFirstHook ps hook args s = (Inr v, s') \<Longrightarrow> v \<noteq> JUndefined \<Longrightarrow>
     \<exists>ps1 p qs s1. ps = ps1 @ p # qs \<and> declined ps1 hook args s = Some s1 \<and>
        priv_callAsyncHook p hook args s1 = (Inr v, s')"
proof (induction ps arbitrary: s)
  case Nil
  then show ?case by simp
next
  case (Cons q ps)
  obtain r t where step: "priv_callAsyncHook q hook args s = (r, t)"
    by (cases "priv_callAsyncHook q hook args s")
  show ?case
  proof (cases r)
    case (Inl e)
    with Cons.prems step show ?thesis by simp
  next
    case (Inr hr)
    show ?thesis
    proof (cases "hr \<noteq> JNull \<and> hr \<noteq> JUndefined")
      case True
      with Cons.prems step Inr have "hr = v" "t = s'" by simp_all
      with step Inr have "q # ps = [] @ q # ps \<and> declined [] hook args s = Some s \<and>
          priv_callAsyncHook q hook args s = (Inr v, s')" by simp
      then show ?thesis by blast
    next
      case False
      with Cons.prems step Inr have "callAsyncFirstHook ps hook args t = (Inr v, s')" by auto
      from Cons.IH [OF this Cons.prems(2)] obtain ps1 p qs s1 where
        *: "ps = ps1 @ p # qs" "declined ps1 hook args t = Some s1"
           "priv_callAsyncHook p hook args s1 = (Inr v, s')" by blast
      from False step Inr * have "q # ps = (q # ps1) @ p # qs \<and>
          declined (q # ps1) hook args s = Some s1 \<and>
          priv_callAsyncHook p hook args s1 = (Inr v, s')" by auto
      then show ?thesis by blast
    qed
  qed
qed

text \<open>
  C1. Async-first dispatch runs the hooks in registration order and returns the first
  result that is not absent, where only \<open>null\<close> and \<open>undefined\<close> are absent (so \<open>''\<close> and
  \<open>0\<close> are opinions). When the plugins \<open>ps\<close> registered before \<open>p\<close> all declined and \<open>p\<close>
  gives the opinion \<open>v\<close>, the result is \<open>v\<close> and the world is the one \<open>p\<close>'s hook left,
  whatever plugins \<open>qs\<close> are registered after \<open>p\<close>: none of their hooks has run.
\<close>

theorem callAsyncFirstHook_first_opinion:
  assumes "declined ps hook args s = Some s1"
    and "priv_callAsyncHook p hook args s1 = (Inr v, s2)"
    and "v \<noteq> JNull" and "v \<noteq> JUndefined"
  shows "callAsyncFirstHook (ps @ p # qs) hook args s = (Inr v, s2)"
  using assms by (simp add: callAsyncFirstHook_append)

theorem callAsyncFirstHook_first_opinion_witness:
  "declined [logging ''h'' ''P1'' JUndefined] ''h'' [] [] = Some [''P1''] \<and>
   priv_callAsyncHook (logging ''h'' ''P2'' (JStr ''X'')) ''h'' [] [''P1'']
     = (Inr (JStr ''X''), [''P1'', ''P2'']) \<and>
   callAsyncFirstHook
     [logging ''h'' ''P1'' JUndefined, logging ''h'' ''P2'' (JStr ''X''),
      logging ''h'' ''P3'' (JStr ''Y'')] ''h'' [] []
     = (Inr (JStr ''X''), [''P1'', ''P2'']) \<and>
   callAsyncFirstHook
     [logging ''h'' ''P1'' JNull, logging ''h'' ''P2'' (JStr []),
      logging ''h'' ''P3'' (JStr ''Y'')] ''h'' [] []
     = (Inr (JStr []), [''P1'', ''P2'']) \<and>
   callAsyncFirstHook
     [logging ''h'' ''P1'' (JNum 0), logging ''h'' ''P2'' (JStr ''X'')] ''h'' [] []
     = (Inr (JNum 0), [''P1''])"
proof -
  have d1: "declined [logging ''h'' ''P1'' JUndefined] ''h'' [] [] = Some [''P1'']"
    by (simp add: logging_def priv_callAsyncHook_def)
  have d2: "declined [logging ''h'' ''P1'' JNull] ''h'' [] [] = Some [''P1'']"
    by (simp add: logging_def priv_callAsyncHook_def)
  have d0: "declined ([] :: (string list) plugin list) ''h'' [] [] = Some []"
    by simp
  have p2: "priv_callAsyncHook (logging ''h'' ''P2'' (JStr ''X'')) ''h'' [] [''P1'']
      = (Inr (JStr ''X''), [''P1'', ''P2''])"
    by (simp add: logging_def priv_callAsyncHook_def)
  have p2e: "priv_callAsyncHook (logging ''h'' ''P2'' (JStr [])) ''h'' [] [''P1'']
      = (Inr (JStr []), [''P1'', ''P2''])"
    by (simp add: logging_def priv_callAsyncHook_def)
  have p0: "priv_callAsyncHook (logging ''h'' ''P1'' (JNum 0)) ''h'' [] []
      = (Inr (JNum 0), [''P1''])"
    by (simp add: logging_def priv_callAsyncHook_def)
  note a = callAsyncFirstHook_first_opinion
    [OF d1 p2, of "[logging ''h'' ''P3'' (JStr ''Y'')]"]
  note b = callAsyncFirstHook_first_opinion
    [OF d2 p2e, of "[logging ''h'' ''P3'' (JStr ''Y'')]"]
  note c = callAsyncFirstHook_first_opinion
    [OF d0 p0, of "[logging ''h'' ''P2'' (JStr ''X'')]"]
  from a b c d1 p2 show ?thesis by simp
qed

section \<open>Async-sequential dispatch\<close>

lemma callAsyncSequentialHook_append:
  "callAsyncSequentialHook (ps @ qs) hook toArgs fromResult start s =
     (case callAsyncSequentialHook ps hook toArgs fromResult start s of
        (Inl e, s1) \<Rightarrow> (Inl e, s1)
      | (Inr acc, s1) \<Rightarrow> callAsyncSequentialHook qs hook toArgs fromResult acc s1)"
  by (induction ps arbitrary: start s) (auto split: prod.splits sum.splits)

text \<open>
  C2. Async-sequential dispatch is the left fold over the plugins in registration order.
  With no plugin the seed is returned. The value after the plugins \<open>ps @ [p]\<close> is got from
  the value \<open>acc\<close> accumulated over \<open>ps\<close>: the hook of \<open>p\<close> is given the projection
  \<open>toArgs acc\<close> of that current value; an absent result leaves \<open>acc\<close> as it is, any other
  result \<open>hr\<close> is merged by \<open>fromResult hr acc\<close>; the value after the last plugin is
  returned. (A hook that raises ends the dispatch with its error.)
\<close>

theorem callAsyncSequentialHook_fold:
  "callAsyncSequentialHook [] hook toArgs fromResult start s = (Inr start, s) \<and>
   callAsyncSequentialHook (ps @ [p]) hook toArgs fromResult start s =
     (case callAsyncSequentialHook ps hook toArgs fromResult start s of
        (Inl e, s1) \<Rightarrow> (Inl e, s1)
      | (Inr acc, s1) \<Rightarrow>
          (case priv_callAsyncHook p hook (toArgs acc) s1 of
             (Inl e, s2) \<Rightarrow> (Inl e, s2)
           | (Inr hr, s2) \<Rightarrow>
               if hr = JNull \<or> hr = JUndefined then (Inr acc, s2)
               else (case fromResult hr acc s2 of (acc', s3) \<Rightarrow> (Inr acc', s3))))"
  by (simp add: callAsyncSequentialHook_append split: prod.splits sum.splits)

theorem callAsyncSequentialHook_fold_witness:
  "callAsyncSequentialHook
     [logging ''h'' ''P1'' (JNum 1), logging ''h'' ''P2'' JUndefined, logging ''h'' ''P3'' (JNum 3)]
     ''h'' (\<lambda>acc. [JNum acc])
     (\<lambda>hr acc log. (case hr of JNum n \<Rightarrow> acc + n | _ \<Rightarrow> acc, log)) 0 []
     = (Inr 4, [''P1'', ''P2'', ''P3''])"
proof -
  let ?P1 = "logging ''h'' ''P1'' (JNum 1)"
  let ?P2 = "logging ''h'' ''P2'' JUndefined"
  let ?P3 = "logging ''h'' ''P3'' (JNum 3)"
  let ?merge = "\<lambda>hr (acc::int) (log::string list). (case hr of JNum n \<Rightarrow> acc + n | _ \<Rightarrow> acc, log)"
  have two: "callAsyncSequentialHook [?P1, ?P2] ''h'' (\<lambda>acc. [JNum acc]) ?merge 0 []
      = (Inr 1, [''P1'', ''P2''])"
    by (simp add: logging_def priv_callAsyncHook_def)
  have last: "priv_callAsyncHook ?P3 ''h'' [JNum 1] [''P1'', ''P2'']
      = (Inr (JNum 3), [''P1'', ''P2'', ''P3''])"
    by (simp add: logging_def priv_callAsyncHook_def)
  note step = conjunct2 [OF callAsyncSequentialHook_fold
    [of "''h''" "\<lambda>acc. [JNum acc]" ?merge 0 "[]" "[?P1, ?P2]" ?P3]]
  have "callAsyncSequentialHook ([?P1, ?P2] @ [?P3]) ''h'' (\<lambda>acc. [JNum acc]) ?merge 0 []
      = (Inr 4, [''P1'', ''P2'', ''P3''])"
    by (simp only: step two) (simp add: last)
  then show ?thesis by simp
qed

section \<open>Literal and missing hook entries\<close>

text \<open>
  C8, as the claim states it, fails: a literal entry that is not a string is not returned
  as it is. The truthy literal \<open>5\<close> has \<open>.apply\<close> called on it, which raises; the falsy
  literal \<open>false\<close> gives \<open>undefined\<close>.
\<close>

theorem literal_entry_counterexample:
  "priv_callAsyncHook \<lparr> execute = [''banner'' \<mapsto> Literal (JNum 5)] \<rparr> ''banner'' [] ()
     = (Inl (TypeError ''plugin.execute[hook].apply is not a function''), ()) \<and>
   priv_callAsyncHook \<lparr> execute = [''banner'' \<mapsto> Literal (JBool False)] \<rparr> ''banner'' [] ()
     = (Inr JUndefined, ())"
  by (simp add: priv_callAsyncHook_def)

text \<open>
  C8, amended. A hook entry that is a literal string is returned as it is by
  \<open>_callAsyncHook\<close>, and so by each of the three async conventions, with nothing invoked:
  the world is left as it was. A plugin that omits the hook contributes \<open>undefined\<close>.
\<close>

theorem literal_string_entry:
  "(execute p hook = Some (Literal (JStr v)) \<longrightarrow>
      priv_callAsyncHook p hook args s = (Inr (JStr v), s) \<and>
      callAsyncFirstHook (p # qs) hook args s = (Inr (JStr v), s) \<and>
      callAsyncParallelHook [p] hook args s = (Inr [JStr v], s) \<and>
      callAsyncSequentialHook [p] hook toArgs fromResult start s =
        (case fromResult (JStr v) start s of (acc, s') \<Rightarrow> (Inr acc, s'))) \<and>
   (execute p hook = None \<longrightarrow>
      priv_callAsyncHook p hook args s = (Inr JUndefined, s) \<and>
      callAsyncFirstHook [p] hook args s = (Inr JUndefined, s) \<and>
      callAsyncParallelHook [p] hook args s = (Inr [JUndefined], s) \<and>
      callAsyncSequentialHook [p] hook toArgs fromResult start s = (Inr start, s))"
  by (simp add: priv_callAsyncHook_def split: prod.splits)

theorem literal_string_entry_witness:
  "priv_callAsyncHook \<lparr> execute = [''banner'' \<mapsto> Literal (JStr ''/* v1 */'')] \<rparr>
     ''banner'' [] [''log''] = (Inr (JStr ''/* v1 */''), [''log'']) \<and>
   callAsyncFirstHook
     [\<lparr> execute = [''banner'' \<mapsto> Literal (JStr ''/* v1 */'')] \<rparr>, logging ''banner'' ''P2'' (JStr ''Y'')]
     ''banner'' [] [''log''] = (Inr (JStr ''/* v1 */''), [''log'']) \<and>
   priv_callAsyncHook \<lparr> execute = Map.empty \<rparr> ''banner'' [] [''log'']
     = (Inr JUndefined, [''log''])"
proof -
  let ?p = "\<lparr> execute = [''banner'' \<mapsto> Literal (JStr ''/* v1 */'')] \<rparr> :: (string list) plugin"
  let ?q = "\<lparr> execute = Map.empty \<rparr> :: (string list) plugin"
  have e: "execute ?p ''banner'' = Some (Literal (JStr ''/* v1 */''))" by simp
  have n: "execute ?q ''banner'' = None" by simp
  note lit = literal_string_entry
    [of ?p "''banner''" "''/* v1 */''" "[]" "[''log'']" "[logging ''banner'' ''P2'' (JStr ''Y'')]",
     THEN conjunct1, rule_format, OF e]
  note none = literal_string_entry
    [of ?q "''banner''" _ "[]" "[''log'']", THEN conjunct2, rule_format, OF n]
  from lit [THEN conjunct1] lit [THEN conjunct2, THEN conjunct1] none [THEN conjunct1]
  show ?thesis by (intro conjI)
qed

section \<open>banner, footer, intro, outro\<close>

lemma callAsyncParallelHook_values:
  "list_all2 (\<lambda>p v. \<forall>t. fst (priv_callAsyncHook p hook args t) = Inr v) ps vs \<Longrightarrow>
     fst (callAsyncParallelHook ps hook args s) = Inr vs"
proof (induction ps vs arbitrary: s rule: list_all2_induct)
  case Nil
  then show ?case by simp
next
  case (Cons p ps v vs)
  obtain r t where step: "priv_callAsyncHook p hook args s = (r, t)"
    by (cases "priv_callAsyncHook p hook args s")
  with Cons.hyps(1) have r: "r = Inr v" by (metis fst_conv)
  obtain rs u where rest: "callAsyncParallelHook ps hook args t = (rs, u)"
    by (cases "callAsyncParallelHook ps hook args t")
  with Cons.IH [of t] have "rs = Inr vs" by simp
  with step r rest show ?case by simp
qed

text \<open>
  C3, as the claim states it, fails: nothing removes an absent result before the join.
  With plugins returning \<open>a\<close>, \<open>undefined\<close>, \<open>b\<close> the banner is \<open>a\<close>, an empty line, \<open>b\<close>.
\<close>

theorem banner_absent_counterexample:
  "fst (banner (abPlugins ''banner'') emptyWorld) = Inr (''a'' @ [CHR 0x0A, CHR 0x0A] @ ''b'') \<and>
   fst (banner (abPlugins ''banner'') emptyWorld) \<noteq> Inr (''a'' @ [CHR 0x0A] @ ''b'')"
  by (simp add: banner_def abPlugins_def returning_def priv_callAsyncHook_def join_js_def)

text \<open>
  C3, amended. \<open>banner\<close> (and equally \<open>footer\<close>, \<open>intro\<close>, \<open>outro\<close>) joins one segment per
  plugin, in plugin order, with a newline between segments: when the hooks return the
  values \<open>vs\<close>, an absent value (\<open>undefined\<close> or \<open>null\<close>) gives the empty segment, as an
  empty string does, and any other value gives its string. No result is excluded, so
  \<open>a\<close>, absent, \<open>b\<close> join to \<open>a\<close>, an empty line, \<open>b\<close>.
\<close>

theorem banner_joins_all_results:
  assumes "list_all2 (\<lambda>p v. \<forall>t. fst (priv_callAsyncHook p hook [] t) = Inr v)
             (container_plugins c) vs"
  shows "(hook = ''banner'' \<longrightarrow> fst (banner c s) =
            Inr (joinStrings (map (\<lambda>v. if v = JUndefined \<or> v = JNull then [] else ToString v) vs)
                   [CHR 0x0A])) \<and>
         (hook = ''footer'' \<longrightarrow> fst (footer c s) =
            Inr (joinStrings (map (\<lambda>v. if v = JUndefined \<or> v = JNull then [] else ToString v) vs)
                   [CHR 0x0A])) \<and>
         (hook = ''intro'' \<longrightarrow> fst (intro c s) =
            Inr (joinStrings (map (\<lambda>v. if v = JUndefined \<or> v = JNull then [] else ToString v) vs)
                   [CHR 0x0A])) \<and>
         (hook = ''outro'' \<longrightarrow> fst (outro c s) =
            Inr (joinStrings (map (\<lambda>v. if v = JUndefined \<or> v = JNull then [] else ToString v) vs)
                   [CHR 0x0A]))"
proof -
  have "fst (callAsyncParallelHook (container_plugins c) hook [] s) = Inr vs"
    using assms by (rule callAsyncParallelHook_values)
  then show ?thesis
    by (auto simp: banner_def footer_def intro_def outro_def join_js_def split: prod.splits sum.splits)
qed

theorem banner_joins_all_results_witness:
  "fst (footer (abPlugins ''footer'') emptyWorld) = Inr (''a'' @ [CHR 0x0A, CHR 0x0A] @ ''b'')"
proof -
  have "list_all2 (\<lambda>p v. \<forall>t. fst (priv_callAsyncHook p ''footer'' [] t) = Inr v)
          (container_plugins (abPlugins ''footer'')) [JStr ''a'', JUndefined, JStr ''b'']"
    by (simp add: abPlugins_def returning_def priv_callAsyncHook_def)
  from banner_joins_all_results [OF this, of emptyWorld] show ?thesis by simp
qed

section \<open>Per-module metadata\<close>

lemma fold_upd_keys:
  "fold (\<lambda>(prop, v) fm. fm(prop \<mapsto> v)) (map (\<lambda>k. (k, f k)) ks) fm0 x
     = (if x \<in> set ks then Some (f x) else fm0 x)"
  by (induction ks arbitrary: fm0) auto

lemma forInEntries_obj:
  "fold (\<lambda>(prop, v) fm. fm(prop \<mapsto> v)) (forInEntries (JObj m)) fm0 = fm0 ++ map_of m"
proof
  fix x
  show "fold (\<lambda>(prop, v) fm. fm(prop \<mapsto> v)) (forInEntries (JObj m)) fm0 x = (fm0 ++ map_of m) x"
  proof (cases "map_of m x")
    case None
    then have "x \<notin> set (map fst m)" by (simp add: map_of_eq_None_iff)
    with None show ?thesis by (simp add: fold_upd_keys map_add_def)
  next
    case (Some v)
    then have "x \<in> set (map fst m)" by (metis map_of_eq_None_iff option.distinct(1) set_map)
    with Some show ?thesis by (simp add: fold_upd_keys map_add_def)
  qed
qed

lemma handleMetaProperty_obj:
  "container_meta (handleMetaProperty f (JObj m) s) f =
     Some ((case container_meta s f of Some fm \<Rightarrow> fm | None \<Rightarrow> Map.empty) ++ map_of m)"
  unfolding handleMetaProperty_def Let_def by (simp add: forInEntries_obj del: forInEntries.simps)

lemma handleMetaProperty_other:
  "g \<noteq> f \<Longrightarrow> container_meta (handleMetaProperty f meta s) g = container_meta s g"
  by (simp add: handleMetaProperty_def Let_def)

lemma handleMetaProperty_absent:
  "\<not> truthy meta \<Longrightarrow> handleMetaProperty f meta s = s"
  by (simp add: handleMetaProperty_def)

section \<open>resolveId\<close>

text \<open>
  C6. When the \<open>resolveId\<close> hooks answer \<open>false\<close>, or the specifier is an element of the
  configured \<open>external\<close> list, or the configured \<open>external\<close> predicate holds of it,
  \<open>resolveId\<close> returns \<open>{ id: specifier, external: true }\<close> with the specifier unmodified
  (and records no metadata).
\<close>

theorem resolveId_external:
  assumes "callAsyncFirstHook (container_plugins c) ''resolveId''
             [JStr ident, optStr parentFilePath] s = (Inr hr, s')"
    and "hr = JBool False
         \<or> (\<exists>cfg xs. container_config c = Some cfg \<and> external cfg = ExternalArray xs
               \<and> JStr ident \<in> set xs)
         \<or> (\<exists>cfg f. container_config c = Some cfg \<and> external cfg = ExternalFunction f
               \<and> truthy (f ident))"
  shows "resolveId env c ident parentFilePath s
           = (Inr (JObj [(''id'', JStr ident), (''external'', JBool True)]), s')"
proof -
  from assms(2) have "hr = JBool False \<or> truthy (isExternal (container_config c) ident)"
    by (auto simp: isExternal_def)
  with assms(1) show ?thesis by (simp add: resolveId_def)
qed

theorem resolveId_external_witness:
  "resolveId testEnv jqueryExternal ''jquery'' (Some ''/proj/src/main.js'') emptyWorld
     = (Inr (JObj [(''id'', JStr ''jquery''), (''external'', JBool True)]), emptyWorld) \<and>
   resolveId testEnv excludingPlugin ''./x'' None emptyWorld
     = (Inr (JObj [(''id'', JStr ''./x''), (''external'', JBool True)]), emptyWorld)"
proof -
  have a: "callAsyncFirstHook (container_plugins jqueryExternal) ''resolveId''
      [JStr ''jquery'', optStr (Some ''/proj/src/main.js'')] emptyWorld
      = (Inr (JStr ''/node_modules/jquery.js''), emptyWorld)"
    by (simp add: jqueryExternal_def returning_def priv_callAsyncHook_def)
  have b: "JStr ''/node_modules/jquery.js'' = JBool False
      \<or> (\<exists>cfg xs. container_config jqueryExternal = Some cfg \<and> external cfg = ExternalArray xs
            \<and> JStr ''jquery'' \<in> set xs)
      \<or> (\<exists>cfg f. container_config jqueryExternal = Some cfg \<and> external cfg = ExternalFunction f
            \<and> truthy (f ''jquery''))"
    by (simp add: jqueryExternal_def)
  have c: "callAsyncFirstHook (container_plugins excludingPlugin) ''resolveId''
      [JStr ''./x'', optStr None] emptyWorld = (Inr (JBool False), emptyWorld)"
    by (simp add: excludingPlugin_def returning_def priv_callAsyncHook_def)
  have d: "JBool False = JBool False
      \<or> (\<exists>cfg xs. container_config excludingPlugin = Some cfg \<and> external cfg = ExternalArray xs
            \<and> JStr ''./x'' \<in> set xs)
      \<or> (\<exists>cfg f. container_config excludingPlugin = Some cfg \<and> external cfg = ExternalFunction f
            \<and> truthy (f ''./x''))"
    by simp
  from resolveId_external [OF a b, of testEnv] resolveId_external [OF c d, of testEnv]
  show ?thesis by (intro conjI)
qed

section \<open>load\<close>

text \<open>
  What \<open>load\<close> does with the winning hook result \<open>hr\<close>: an object whose \<open>code\<close> is
  truthy is returned as it is, after its \<open>meta\<close> is merged into the module's metadata; a
  string is returned as \<open>{code: hr}\<close>; for a result that is not a string and has no
  \<open>code\<close> the file is read from disk.
\<close>

lemma load_result:
  assumes "callAsyncFirstHook (container_plugins c) ''load''
             [JStr filePath, optStr parentFilePath] s = (Inr hr, s')"
  shows "(typeof_js hr = ''object'' \<and> truthy (getProp hr ''code'') \<longrightarrow>
            load env c filePath parentFilePath s
              = (Inr hr, handleMetaProperty filePath (getProp hr ''meta'') s')) \<and>
         (typeof_js hr = ''string'' \<longrightarrow>
            load env c filePath parentFilePath s = (Inr (JObj [(''code'', hr)]), s')) \<and>
         (typeof_js hr \<noteq> ''string'' \<and> getProp hr ''code'' = JUndefined \<longrightarrow>
            load env c filePath parentFilePath s
              = (case fs_readFileSync env
                        (if path_isAbsolute env filePath then filePath
                         else path_resolve_cwd env filePath) of
                   Inl e \<Rightarrow> (Inl e, s')
                 | Inr text \<Rightarrow> (Inr (JObj [(''code'', JStr text)]), s')))"
proof -
  from assms have nn: "hr \<noteq> JNull" by (rule callAsyncFirstHook_never_null)
  show ?thesis
    using assms nn by (cases hr) (simp_all add: load_def Let_def)
qed

lemma load_result_example:
  "load testEnv codePlugin ''/a.js'' None emptyWorld
     = (Inr (JObj [(''code'', JStr ''let a''), (''meta'', JObj [(''x'', JNum 1)])]),
        handleMetaProperty ''/a.js'' (JObj [(''x'', JNum 1)]) emptyWorld) \<and>
   container_meta (handleMetaProperty ''/a.js'' (JObj [(''x'', JNum 1)]) emptyWorld) ''/a.js''
     = Some [''x'' \<mapsto> JNum 1] \<and>
   load testEnv \<lparr> container_plugins = [], container_config = None \<rparr> ''a.js'' None emptyWorld
     = (Inr (JObj [(''code'', JStr ''DISK'')]), emptyWorld)"
proof -
  have a: "callAsyncFirstHook (container_plugins codePlugin) ''load''
      [JStr ''/a.js'', optStr None] emptyWorld
      = (Inr (JObj [(''code'', JStr ''let a''), (''meta'', JObj [(''x'', JNum 1)])]), emptyWorld)"
    by (simp add: codePlugin_def returning_def priv_callAsyncHook_def)
  have b: "typeof_js (JObj [(''code'', JStr ''let a''), (''meta'', JObj [(''x'', JNum 1)])]) = ''object''
      \<and> truthy (getProp (JObj [(''code'', JStr ''let a''), (''meta'', JObj [(''x'', JNum 1)])]) ''code'')"
    by simp
  have m: "getProp (JObj [(''code'', JStr ''let a''), (''meta'', JObj [(''x'', JNum 1)])]) ''meta''
      = JObj [(''x'', JNum 1)]" by simp
  note r = load_result [OF a, of testEnv, THEN conjunct1, rule_format, OF b]
  have meta: "container_meta (handleMetaProperty ''/a.js'' (JObj [(''x'', JNum 1)]) emptyWorld) ''/a.js''
      = Some [''x'' \<mapsto> JNum 1]"
    by (simp add: handleMetaProperty_obj emptyWorld_def)
  have n: "callAsyncFirstHook
      (container_plugins \<lparr> container_plugins = [], container_config = None \<rparr>) ''load''
      [JStr ''a.js'', optStr None] emptyWorld = (Inr JUndefined, emptyWorld)"
    by simp
  have u: "typeof_js JUndefined \<noteq> ''string'' \<and> getProp JUndefined ''code'' = JUndefined"
    by simp
  from load_result [OF n, of testEnv, THEN conjunct2, THEN conjunct2, rule_format, OF u]
  have disk: "load testEnv \<lparr> container_plugins = [], container_config = None \<rparr> ''a.js'' None emptyWorld
     = (Inr (JObj [(''code'', JStr ''DISK'')]), emptyWorld)"
    by (simp add: testEnv_def)
  from r meta disk show ?thesis by (simp only: m) 
qed

text \<open>
  C7. The claim asks that an object result with a \<open>code\<close> property, the empty string
  included, is returned as it is with its \<open>meta\<close> merged, and that the file is read only
  when no plugin gave an opinion. The code does not do this for the empty code: a hook
  returning \<open>{code: '', meta: {x: 1}}\<close> for \<open>/a.js\<close> gets the content of the file on disk
  as the result, the object is not returned and \<open>x\<close> is not recorded. The same module
  given as the string \<open>''\<close> is returned as \<open>{code: ''}\<close> with no read.
\<close>

theorem load_empty_code_reads_disk:
  "fst (load testEnv emptyCodePlugin ''/a.js'' None emptyWorld) = Inr (JObj [(''code'', JStr ''DISK'')]) \<and>
   fst (load testEnv emptyCodePlugin ''/a.js'' None emptyWorld)
     \<noteq> Inr (JObj [(''code'', JStr []), (''meta'', JObj [(''x'', JNum 1)])]) \<and>
   container_meta (snd (load testEnv emptyCodePlugin ''/a.js'' None emptyWorld)) ''/a.js'' = None \<and>
   fst (load testEnv emptyStringPlugin ''/a.js'' None emptyWorld) = Inr (JObj [(''code'', JStr [])])"
  by (simp add: load_def emptyCodePlugin_def emptyStringPlugin_def returning_def
      priv_callAsyncHook_def testEnv_def optStr_def emptyWorld_def)

theorem load_empty_code_reads_disk_witness:
  "\<exists>text. fst (load testEnv emptyCodePlugin ''/a.js'' None emptyWorld)
             = Inr (JObj [(''code'', JStr text)]) \<and> text = ''DISK''"
  using load_empty_code_reads_disk by blast

section \<open>transform\<close>

lemma getProp_deleteProp:
  "k' \<noteq> k \<Longrightarrow> getProp (deleteProp r k) k' = getProp r k'"
  by (cases r) (simp_all add: delete_conv)

lemma currentMapChain_handleMetaProperty:
  "currentMapChain (handleMetaProperty f meta s) = currentMapChain s"
  by (simp add: handleMetaProperty_def Let_def)

lemma getProp_deleteProp_same:
  "getProp (deleteProp r k) k = JUndefined"
  by (cases r) (simp_all add: delete_conv)

lemma transform_fromResult_code:
  assumes "getProp r ''code'' \<noteq> JUndefined"
    and "kept = (if getProp r ''map'' \<noteq> JNull \<and> typeof_js (getProp r ''map'') = ''object''
                    \<and> \<not> truthy (getProp (getProp r ''map'') ''mappings'')
                 then JUndefined else getProp r ''map'')"
  shows "transform_fromResult ident r (input, chain, sne) s =
     ((JObj [(''code'', getProp r ''code''), (''id'', JStr ident), (''map'', kept)],
       chain @ [JObj [(''code'', getProp r ''code''), (''map'', kept)]],
       (if truthy (getProp r ''syntheticNamedExports'') \<and> sne = JUndefined
        then getProp r ''syntheticNamedExports'' else sne)),
      (handleMetaProperty ident (getProp r ''meta'') s)
        \<lparr>currentMapChain :=
           Some (chain @ [JObj [(''code'', getProp r ''code''), (''map'', kept)]])\<rparr>)"
proof -
  from assms(1) have "typeof_js r \<noteq> ''string''" by (cases r) auto
  with assms show ?thesis
    by (simp add: transform_fromResult_def Let_def getProp_deleteProp getProp_deleteProp_same)
qed

lemma transform_fromResult_no_code:
  assumes "typeof_js r \<noteq> ''string''" and "getProp r ''code'' = JUndefined"
  shows "fst (fst (transform_fromResult ident r (input, chain, sne) s)) = input \<and>
         fst (snd (fst (transform_fromResult ident r (input, chain, sne) s))) = chain \<and>
         currentMapChain (snd (transform_fromResult ident r (input, chain, sne) s))
           = currentMapChain s"
  using assms
  by (simp add: transform_fromResult_def Let_def getProp_deleteProp
      currentMapChain_handleMetaProperty)

text \<open>
  C4. Let the plugins be \<open>P1\<close> then \<open>P2\<close>, let the \<open>transform\<close> hook of \<open>P1\<close>, given the
  original code and the id, return a result with code \<open>c1\<close> and map \<open>m1\<close>, and let the
  hook of \<open>P2\<close>, given \<open>c1\<close> and the id, return a result with code \<open>c2\<close>, map \<open>m2\<close> and
  \<open>meta.x = 1\<close>. Then the combiner is called with the chain
  \<open>[{code: c1, map: k1}, {code: c2, map: k2}]\<close>, the original code and the id, where
  \<open>k\<close> is the map \<open>m\<close> as the merge keeps it (a map object without mappings is deleted,
  any other map is kept); the result has code \<open>c2\<close> and the combined map; and the
  metadata of the module has \<open>x = 1\<close>. A result that is not a string and has no \<open>code\<close>
  leaves the accumulated input and the chain as they were.
\<close>

theorem transform_chain_and_meta:
  assumes "container_plugins c = [P1, P2]"
    and "priv_callAsyncHook P1 ''transform'' [JStr code, JStr ident]
           (s\<lparr>currentMapChain := Some [], currentOriginalCode := Some code,
              currentModuleId := Some ident\<rparr>) = (Inr r1, s1)"
    and "getProp r1 ''code'' = c1" and "c1 \<noteq> JUndefined" and "getProp r1 ''map'' = m1"
    and "k1 = (if m1 \<noteq> JNull \<and> typeof_js m1 = ''object'' \<and> \<not> truthy (getProp m1 ''mappings'')
               then JUndefined else m1)"
    and "priv_callAsyncHook P2 ''transform'' [c1, JStr ident]
           (snd (transform_fromResult ident r1
              (JObj [(''code'', JStr code), (''id'', JStr ident), (''map'', JNull),
                     (''syntheticNamedExports'', JBool False)], [], JUndefined) s1))
           = (Inr r2, s2)"
    and "getProp r2 ''code'' = c2" and "c2 \<noteq> JUndefined" and "getProp r2 ''map'' = m2"
    and "k2 = (if m2 \<noteq> JNull \<and> typeof_js m2 = ''object'' \<and> \<not> truthy (getProp m2 ''mappings'')
               then JUndefined else m2)"
    and "getProp (getProp r2 ''meta'') ''x'' = JNum 1"
  shows "(\<exists>s3 sne.
            (\<exists>fm. container_meta s3 ident = Some fm \<and> fm ''x'' = Some (JNum 1)) \<and>
            transform combine c code ident s =
              (case combine [JObj [(''code'', c1), (''map'', k1)], JObj [(''code'', c2), (''map'', k2)]]
                      code ident of
                 Inl e \<Rightarrow> (Inl e, s3)
               | Inr m \<Rightarrow>
                   (Inr (JObj [(''code'', c2), (''map'', m), (''syntheticNamedExports'', sne)]),
                    s3\<lparr>currentMapChain := None, currentOriginalCode := None,
                       currentModuleId := None\<rparr>))) \<and>
         (typeof_js r \<noteq> ''string'' \<and> getProp r ''code'' = JUndefined \<longrightarrow>
            fst (fst (transform_fromResult ident r (input, chain, sne0) t)) = input \<and>
            fst (snd (fst (transform_fromResult ident r (input, chain, sne0) t))) = chain)"
proof -
  let ?seed = "JObj [(''code'', JStr code), (''id'', JStr ident), (''map'', JNull),
                     (''syntheticNamedExports'', JBool False)]"
  let ?e1 = "JObj [(''code'', c1), (''map'', k1)]"
  let ?e2 = "JObj [(''code'', c2), (''map'', k2)]"
  let ?s0 = "s\<lparr>currentMapChain := Some [], currentOriginalCode := Some code,
                currentModuleId := Some ident\<rparr>"
  define sne1 where "sne1 =
    (if truthy (getProp r1 ''syntheticNamedExports'') \<and> JUndefined = JUndefined
     then getProp r1 ''syntheticNamedExports'' else JUndefined)"
  define sne2 where "sne2 =
    (if truthy (getProp r2 ''syntheticNamedExports'') \<and> sne1 = JUndefined
     then getProp r2 ''syntheticNamedExports'' else sne1)"
  let ?t1 = "(handleMetaProperty ident (getProp r1 ''meta'') s1)\<lparr>currentMapChain := Some [?e1]\<rparr>"
  let ?t2 = "(handleMetaProperty ident (getProp r2 ''meta'') s2)\<lparr>currentMapChain := Some [?e1, ?e2]\<rparr>"
  from assms(3,4) have ok1: "getProp r1 ''code'' \<noteq> JUndefined" by simp
  from assms(5,6) have kept1: "k1 =
      (if getProp r1 ''map'' \<noteq> JNull \<and> typeof_js (getProp r1 ''map'') = ''object''
          \<and> \<not> truthy (getProp (getProp r1 ''map'') ''mappings'')
       then JUndefined else getProp r1 ''map'')" by simp
  from assms(8,9) have ok2: "getProp r2 ''code'' \<noteq> JUndefined" by simp
  from assms(10,11) have kept2: "k2 =
      (if getProp r2 ''map'' \<noteq> JNull \<and> typeof_js (getProp r2 ''map'') = ''object''
          \<and> \<not> truthy (getProp (getProp r2 ''map'') ''mappings'')
       then JUndefined else getProp r2 ''map'')" by simp
  have f1: "transform_fromResult ident r1 (?seed, [], JUndefined) s1
      = ((JObj [(''code'', c1), (''id'', JStr ident), (''map'', k1)], [?e1], sne1), ?t1)"
    unfolding transform_fromResult_code [OF ok1 kept1] sne1_def assms(3) by simp
  have f2: "transform_fromResult ident r2
        (JObj [(''code'', c1), (''id'', JStr ident), (''map'', k1)], [?e1], sne1) s2
      = ((JObj [(''code'', c2), (''id'', JStr ident), (''map'', k2)], [?e1, ?e2], sne2), ?t2)"
    unfolding transform_fromResult_code [OF ok2 kept2] sne2_def assms(8) by simp
  from assms(7) have h2: "priv_callAsyncHook P2 ''transform'' [c1, JStr ident] ?t1 = (Inr r2, s2)"
    by (simp only: f1 snd_conv)
  from assms(3,4) have r1: "r1 \<noteq> JNull" "r1 \<noteq> JUndefined" by auto
  from assms(8,9) have r2: "r2 \<noteq> JNull" "r2 \<noteq> JUndefined" by auto
  have run: "callAsyncSequentialHook [P1, P2] ''transform''
        (\<lambda>(input, mapChain, sne). [getProp input ''code'', getProp input ''id''])
        (transform_fromResult ident) (?seed, [], JUndefined) ?s0
      = (Inr (JObj [(''code'', c2), (''id'', JStr ident), (''map'', k2)], [?e1, ?e2], sne2), ?t2)"
    using assms(2) h2 r1 r2 by (simp add: f1 f2)
  from assms(12) obtain mo where mo: "getProp r2 ''meta'' = JObj mo"
    by (cases "getProp r2 ''meta''") auto
  with assms(12) have x: "map_of mo ''x'' = Some (JNum 1)"
    by (auto split: option.splits)
  have meta: "\<exists>fm. container_meta ?t2 ident = Some fm \<and> fm ''x'' = Some (JNum 1)"
    using x by (simp add: mo handleMetaProperty_obj)
  have tr: "transform combine c code ident s =
      (case combine [?e1, ?e2] code ident of
         Inl e \<Rightarrow> (Inl e, ?t2)
       | Inr m \<Rightarrow>
           (Inr (JObj [(''code'', c2), (''map'', m), (''syntheticNamedExports'', sne2)]),
            ?t2\<lparr>currentMapChain := None, currentOriginalCode := None, currentModuleId := None\<rparr>))"
    unfolding transform_def Let_def assms(1) run by (simp split: sum.splits)
  from meta tr have A: "\<exists>s3 sne.
      (\<exists>fm. container_meta s3 ident = Some fm \<and> fm ''x'' = Some (JNum 1)) \<and>
      transform combine c code ident s =
        (case combine [?e1, ?e2] code ident of
           Inl e \<Rightarrow> (Inl e, s3)
         | Inr m \<Rightarrow>
             (Inr (JObj [(''code'', c2), (''map'', m), (''syntheticNamedExports'', sne)]),
              s3\<lparr>currentMapChain := None, currentOriginalCode := None,
                 currentModuleId := None\<rparr>))"
    by blast
  have B: "typeof_js r \<noteq> ''string'' \<and> getProp r ''code'' = JUndefined \<longrightarrow>
      fst (fst (transform_fromResult ident r (input, chain, sne0) t)) = input \<and>
      fst (snd (fst (transform_fromResult ident r (input, chain, sne0) t))) = chain"
    using transform_fromResult_no_code [of r ident input chain sne0 t] by blast
  from A B show ?thesis by (rule conjI)
qed

theorem transform_chain_and_meta_witness:
  "\<exists>res s'.
     transform recordingCombine twoTransforms ''src'' ''/m.js'' emptyWorld = (Inr res, s') \<and>
     getProp res ''code'' = JStr ''c2'' \<and>
     getProp res ''map'' =
       JObj [(''count'', JNum 2),
             (''oldest'', JObj [(''code'', JStr ''c1''), (''map'', JObj [(''mappings'', JStr ''AAAA'')])]),
             (''newest'', JObj [(''code'', JStr ''c2''), (''map'', JObj [(''mappings'', JStr ''CCCC'')])]),
             (''original'', JStr ''src''), (''file'', JStr ''/m.js'')] \<and>
     (\<exists>fm. container_meta s' ''/m.js'' = Some fm \<and> fm ''x'' = Some (JNum 1))"
proof -
  let ?r1 = "JObj [(''code'', JStr ''c1''), (''map'', JObj [(''mappings'', JStr ''AAAA'')])]"
  let ?r2 = "JObj [(''code'', JStr ''c2''), (''map'', JObj [(''mappings'', JStr ''CCCC'')]),
                   (''meta'', JObj [(''x'', JNum 1)])]"
  let ?P1 = "returning ''transform'' ?r1 :: (unit world) plugin"
  let ?P2 = "returning ''transform'' ?r2 :: (unit world) plugin"
  let ?s0 = "emptyWorld\<lparr>currentMapChain := Some [], currentOriginalCode := Some ''src'',
                currentModuleId := Some ''/m.js''\<rparr>"
  let ?seed = "JObj [(''code'', JStr ''src''), (''id'', JStr ''/m.js''), (''map'', JNull),
                     (''syntheticNamedExports'', JBool False)]"
  have ps: "container_plugins twoTransforms = [?P1, ?P2]" by (simp add: twoTransforms_def)
  have h1: "priv_callAsyncHook ?P1 ''transform'' [JStr ''src'', JStr ''/m.js''] ?s0 = (Inr ?r1, ?s0)"
    by (simp add: returning_def priv_callAsyncHook_def)
  have h2: "priv_callAsyncHook ?P2 ''transform'' [JStr ''c1'', JStr ''/m.js'']
      (snd (transform_fromResult ''/m.js'' ?r1 (?seed, [], JUndefined) ?s0))
      = (Inr ?r2, snd (transform_fromResult ''/m.js'' ?r1 (?seed, [], JUndefined) ?s0))"
    by (simp add: returning_def priv_callAsyncHook_def)
  have c1: "getProp ?r1 ''code'' = JStr ''c1''" "JStr ''c1'' \<noteq> JUndefined"
    "getProp ?r1 ''map'' = JObj [(''mappings'', JStr ''AAAA'')]"
    "JObj [(''mappings'', JStr ''AAAA'')] =
       (if JObj [(''mappings'', JStr ''AAAA'')] \<noteq> JNull
           \<and> typeof_js (JObj [(''mappings'', JStr ''AAAA'')]) = ''object''
           \<and> \<not> truthy (getProp (JObj [(''mappings'', JStr ''AAAA'')]) ''mappings'')
        then JUndefined else JObj [(''mappings'', JStr ''AAAA'')])" by simp_all
  have c2: "getProp ?r2 ''code'' = JStr ''c2''" "JStr ''c2'' \<noteq> JUndefined"
    "getProp ?r2 ''map'' = JObj [(''mappings'', JStr ''CCCC'')]"
    "JObj [(''mappings'', JStr ''CCCC'')] =
       (if JObj [(''mappings'', JStr ''CCCC'')] \<noteq> JNull
           \<and> typeof_js (JObj [(''mappings'', JStr ''CCCC'')]) = ''object''
           \<and> \<not> truthy (getProp (JObj [(''mappings'', JStr ''CCCC'')]) ''mappings'')
        then JUndefined else JObj [(''mappings'', JStr ''CCCC'')])"
    "getProp (getProp ?r2 ''meta'') ''x'' = JNum 1" by simp_all
  note inst = transform_chain_and_meta
    [OF ps h1 c1 h2 c2, of recordingCombine, THEN conjunct1]
  then obtain s3 sne fm where
    meta: "container_meta s3 ''/m.js'' = Some fm" "fm ''x'' = Some (JNum 1)" and
    tr: "transform recordingCombine twoTransforms ''src'' ''/m.js'' emptyWorld =
      (case recordingCombine
              [JObj [(''code'', JStr ''c1''), (''map'', JObj [(''mappings'', JStr ''AAAA'')])],
               JObj [(''code'', JStr ''c2''), (''map'', JObj [(''mappings'', JStr ''CCCC'')])]]
              ''src'' ''/m.js'' of
         Inl e \<Rightarrow> (Inl e, s3)
       | Inr m \<Rightarrow>
           (Inr (JObj [(''code'', JStr ''c2''), (''map'', m), (''syntheticNamedExports'', sne)]),
            s3\<lparr>currentMapChain := None, currentOriginalCode := None,
               currentModuleId := None\<rparr>))"
    by blast
  let ?m = "JObj [(''count'', JNum 2),
             (''oldest'', JObj [(''code'', JStr ''c1''), (''map'', JObj [(''mappings'', JStr ''AAAA'')])]),
             (''newest'', JObj [(''code'', JStr ''c2''), (''map'', JObj [(''mappings'', JStr ''CCCC'')])]),
             (''original'', JStr ''src''), (''file'', JStr ''/m.js'')]"
  let ?res = "JObj [(''code'', JStr ''c2''), (''map'', ?m), (''syntheticNamedExports'', sne)]"
  let ?s' = "s3\<lparr>currentMapChain := None, currentOriginalCode := None, currentModuleId := None\<rparr>"
  from tr have "transform recordingCombine twoTransforms ''src'' ''/m.js'' emptyWorld = (Inr ?res, ?s')"
    by (simp add: recordingCombine_def)
  moreover have "getProp ?res ''code'' = JStr ''c2''" by simp
  moreover have "getProp ?res ''map'' = ?m" by simp
  moreover from meta have "\<exists>fm. container_meta ?s' ''/m.js'' = Some fm \<and> fm ''x'' = Some (JNum 1)"
    by simp
  ultimately show ?thesis by blast
qed

section \<open>The bundle view\<close>

lemma bundleObj_get_first:
  assumes "\<forall>e\<in>set pre. e \<noteq> JNull \<and> e \<noteq> JUndefined \<and> getProp e ''fileName'' \<noteq> JStr prop"
    and "getProp r ''fileName'' = JStr prop"
  shows "bundleObj_get (pre @ r # post) prop = Inr r"
  using assms by (induction pre) auto

text \<open>
  C10. An assignment through the view appends the assigned record to the end of the
  bundle and answers \<open>true\<close>, whatever the property name and whatever the bundle holds, so
  every record that was there stays where it was. A read is a first-match lookup: when
  \<open>r\<close> is the earliest record named \<open>prop\<close>, a read of \<open>prop\<close> gives \<open>r\<close> before the
  assignment and still gives \<open>r\<close> after it, also when the assigned record is named \<open>prop\<close>.
\<close>

theorem bundleObj_set_appends:
  "bundleObj_set bundle prop v = (bundle @ [v], True) \<and>
   take (length bundle) (fst (bundleObj_set bundle prop v)) = bundle \<and>
   (bundle = pre @ r # post
      \<and> (\<forall>e\<in>set pre. e \<noteq> JNull \<and> e \<noteq> JUndefined \<and> getProp e ''fileName'' \<noteq> JStr prop)
      \<and> getProp r ''fileName'' = JStr prop \<longrightarrow>
    bundleObj_get bundle prop = Inr r \<and>
    bundleObj_get (fst (bundleObj_set bundle prop v)) prop = Inr r)"
proof -
  have "bundleObj_get ((pre @ r # post) @ [v]) prop = Inr r"
    if "\<forall>e\<in>set pre. e \<noteq> JNull \<and> e \<noteq> JUndefined \<and> getProp e ''fileName'' \<noteq> JStr prop"
      and "getProp r ''fileName'' = JStr prop"
    using bundleObj_get_first [OF that, of "post @ [v]"] by simp
  then show ?thesis
    by (auto simp: bundleObj_set_def bundleObj_get_first)
qed

theorem bundleObj_set_appends_witness:
  "bundleObj_set oneRecord ''a.js'' (JObj [(''fileName'', JStr ''a.js''), (''code'', JStr ''new'')])
     = ([JObj [(''fileName'', JStr ''a.js''), (''code'', JStr ''old'')],
         JObj [(''fileName'', JStr ''a.js''), (''code'', JStr ''new'')]], True) \<and>
   bundleObj_get oneRecord ''a.js'' = Inr (JObj [(''fileName'', JStr ''a.js''), (''code'', JStr ''old'')]) \<and>
   bundleObj_get
     (fst (bundleObj_set oneRecord ''a.js'' (JObj [(''fileName'', JStr ''a.js''), (''code'', JStr ''new'')])))
     ''a.js'' = Inr (JObj [(''fileName'', JStr ''a.js''), (''code'', JStr ''old'')])"
proof -
  let ?old = "JObj [(''fileName'', JStr ''a.js''), (''code'', JStr ''old'')]"
  let ?new = "JObj [(''fileName'', JStr ''a.js''), (''code'', JStr ''new'')]"
  note t = bundleObj_set_appends [of oneRecord "''a.js''" ?new "[]" ?old "[]"]
  have h: "oneRecord = [] @ ?old # []
      \<and> (\<forall>e\<in>set []. e \<noteq> JNull \<and> e \<noteq> JUndefined \<and> getProp e ''fileName'' \<noteq> JStr ''a.js'')
      \<and> getProp ?old ''fileName'' = JStr ''a.js''"
    by (simp add: oneRecord_def)
  from t [THEN conjunct1] have a: "bundleObj_set oneRecord ''a.js'' ?new = ([?old, ?new], True)"
    by (simp add: oneRecord_def)
  note b = t [THEN conjunct2, THEN conjunct2, rule_format, OF h]
  from a b show ?thesis by (intro conjI) simp_all
qed

section \<open>The syntax transform\<close>





lemma es2cjs_parse_error:
  "parse input = Inl e \<Longrightarrow>
     es2cjs parse ms input context =
       Inl (Thrown (JStr (pe_name e @ '': '' @ pe_message e @ [CHR 0x0A]
         @ ''    '' @ errorLine input (loc_line e) @ [CHR 0x0A]
         @ ''    '' @ replicate (loc_column e - 1) (CHR '' '') @ ''^'')))"
  by (simp add: es2cjs_def padStart_def)

text \<open>
  C9. A parse error ends the transform with a thrown message and no output. For the
  input \<open>var 1;\<close> the parser fails at line 1, column 4 (counted from 0: the character
  \<open>1\<close>). The message has the offending line, but the caret is not under the failing
  column: the \<open>1\<close> is character 8 of the printed line, and the caret is character 7 of
  the line below it, under column 3.
\<close>

theorem es2cjs_caret_off_by_one:
  "es2cjs parseUnexpected editList ''var 1;'' None =
     Inl (Thrown (JStr (''SyntaxError: Unexpected token (1:4)'' @ [CHR 0x0A]
       @ ''    var 1;'' @ [CHR 0x0A] @ ''       ^''))) \<and>
   ''var 1;'' ! 4 = CHR ''1'' \<and> ''    var 1;'' ! 8 = CHR ''1'' \<and>
   ''       ^'' ! 7 = CHR ''^'' \<and> length ''       ^'' = 8"
  by (simp add: es2cjs_def parseUnexpected_def padStart_def errorLine_def eval_nat_numeral)

end
